theory Spec2Isabelle
  imports Main
begin

section \<open>MarkVault server: the data model\<close>

text \<open>
  The server (\<^verbatim>\<open>src/index.js\<close>) keeps two collections in a document store:
  users (\<^verbatim>\<open>UserSchema\<close>) and bookmarks (\<^verbatim>\<open>BookmarkSchema\<close>). A collection is a list of
  documents in natural (insertion) order, since \<^verbatim>\<open>findOne\<close> returns the first match in
  that order. An ObjectId is a natural number; the store hands out the next one from a
  counter. The field \<^verbatim>\<open>_id\<close> is written \<open>u_id\<close> for users and \<open>b_id\<close> for bookmarks,
  and \<^verbatim>\<open>notes\<close> is \<open>b_notes\<close>.

  \<^verbatim>\<open>BookmarkSchema\<close> declares title, url, category, tags, notes and userId, and nothing
  else: there is no \<^verbatim>\<open>createdAt\<close> path and the schema is built without the
  \<^verbatim>\<open>timestamps\<close> option.

  The store itself does not fail here: the 500 branch of a handler is reached by the
  exceptions that the handler's own code raises (a missing secret, a failed validation).
\<close>

record user =
  u_id :: nat
  username :: string
  email :: string
  password :: string
  refreshTokens :: "string list"

record bookmark =
  b_id :: nat
  title :: "string option"
  url :: "string option"
  category :: "string option"
  tags :: "string list"
  b_notes :: "string option"
  userId :: nat

record db =
  users :: "user list"
  bookmarks :: "bookmark list"
  next_id :: nat

text \<open>
  The payload of a token: \<^verbatim>\<open>{ userId, email }\<close> for an access token,
  \<^verbatim>\<open>{ userId }\<close> for a refresh token.
\<close>

record payload =
  p_userId :: nat
  p_email :: "string option"

text \<open>
  The libraries \<^verbatim>\<open>jsonwebtoken\<close> and \<^verbatim>\<open>bcryptjs\<close> are not part of the repository. They
  are parameters of the model: \<open>jwt_sign payload secret expiresIn now\<close> is the token
  string, \<open>jwt_verify token secret now\<close> is the decoded payload or \<open>None\<close> when
  \<^verbatim>\<open>jwt.verify\<close> reports an error (the secret may be undefined there), and \<open>now\<close> is
  the clock the library reads. Every theorem below holds for any such library.
\<close>

record lib =
  jwt_sign :: "payload \<Rightarrow> string \<Rightarrow> string \<Rightarrow> nat \<Rightarrow> string"
  jwt_verify :: "string \<Rightarrow> string option \<Rightarrow> nat \<Rightarrow> payload option"
  bcrypt_hash :: "string \<Rightarrow> nat \<Rightarrow> string"
  bcrypt_compare :: "string \<Rightarrow> string \<Rightarrow> bool"

text \<open>\<^verbatim>\<open>process.env\<close>: a variable is undefined or a string.\<close>

record env =
  JWT_SECRET :: "string option"
  REFRESH_SECRET :: "string option"

text \<open>
  What a handler sends: a status and a JSON body. \<open>NoResponse\<close> is a request that is
  never answered (an exception outside every \<^verbatim>\<open>try\<close> block).
\<close>

datatype json =
  Message string
  | Tokens string string string
  | AccessToken string
  | BookmarkDoc bookmark
  | BookmarkList "bookmark list"

datatype response = Response nat json | NoResponse

text \<open>
  Request bodies. A field that the handler itself tests with \<^verbatim>\<open>!field\<close> is optional
  here (absent, or a string that may be empty). A field that the handler passes straight
  to a query or to \<^verbatim>\<open>bcrypt.compare\<close> is a string: what the store does with an
  undefined query value is not decided by this repository. For the same reason the
  \<^verbatim>\<open>:id\<close> of a delete request is an ObjectId. The bookmark body may carry a
  \<^verbatim>\<open>userId\<close> of its own.
\<close>

record signup_body =
  sb_username :: "string option"
  sb_email :: "string option"
  sb_password :: "string option"

record login_body =
  lb_email :: string
  lb_password :: string

record bookmark_body =
  bb_title :: "string option"
  bb_url :: "string option"
  bb_category :: "string option"
  bb_tags :: "string list option"
  bb_notes :: "string option"
  bb_userId :: "nat option"

section \<open>The document store\<close>

fun findOne :: "('a \<Rightarrow> bool) \<Rightarrow> 'a list \<Rightarrow> 'a option" where
  "findOne P [] = None"
| "findOne P (x # xs) = (if P x then Some x else findOne P xs)"

definition findById :: "nat \<Rightarrow> user list \<Rightarrow> user option" where
  "findById i us = findOne (\<lambda>u. u_id u = i) us"

text \<open>
  \<^verbatim>\<open>doc.save()\<close>: the document with this \<^verbatim>\<open>_id\<close> is replaced where it stands; a new
  document is appended.
\<close>

fun save_user :: "user \<Rightarrow> user list \<Rightarrow> user list" where
  "save_user u [] = [u]"
| "save_user u (v # vs) = (if u_id v = u_id u then u # vs else v # save_user u vs)"

text \<open>\<^verbatim>\<open>findOneAndDelete\<close>: the first match is removed and returned.\<close>

fun findOneAndDelete :: "('a \<Rightarrow> bool) \<Rightarrow> 'a list \<Rightarrow> 'a option \<times> 'a list" where
  "findOneAndDelete P [] = (None, [])"
| "findOneAndDelete P (x # xs) =
     (if P x then (Some x, xs)
      else (case findOneAndDelete P xs of (r, ys) \<Rightarrow> (r, x # ys)))"

text \<open>
  \<^verbatim>\<open>.sort({ key: -1 })\<close>: descending by the key, a missing key below every value,
  documents with equal keys left in their natural order.
\<close>

fun key_le :: "nat option \<Rightarrow> nat option \<Rightarrow> bool" where
  "key_le None _ = True"
| "key_le (Some a) None = False"
| "key_le (Some a) (Some b) = (a \<le> b)"

fun insert_desc :: "('a \<Rightarrow> nat option) \<Rightarrow> 'a \<Rightarrow> 'a list \<Rightarrow> 'a list" where
  "insert_desc k x [] = [x]"
| "insert_desc k x (y # ys) =
     (if key_le (k y) (k x) then x # y # ys else y # insert_desc k x ys)"

fun sort_desc :: "('a \<Rightarrow> nat option) \<Rightarrow> 'a list \<Rightarrow> 'a list" where
  "sort_desc k [] = []"
| "sort_desc k (x # xs) = insert_desc k x (sort_desc k xs)"

text \<open>
  The value of \<^verbatim>\<open>createdAt\<close> in a stored bookmark: the schema has no such path, so no
  document has the field.
\<close>

definition createdAt :: "bookmark \<Rightarrow> nat option" where
  "createdAt b = None"

section \<open>Token service\<close>

definition generateAccessToken :: "lib \<Rightarrow> env \<Rightarrow> nat \<Rightarrow> user \<Rightarrow> string + string" where
  "generateAccessToken L E now user =
     (case JWT_SECRET E of
        None \<Rightarrow> Inl ''Missing JWT_SECRET in .env file''
      | Some secret \<Rightarrow>
          if secret = [] then Inl ''Missing JWT_SECRET in .env file''
          else Inr (jwt_sign L \<lparr>p_userId = u_id user, p_email = Some (email user)\<rparr>
                      secret ''15m'' now))"

definition generateRefreshToken ::
  "lib \<Rightarrow> env \<Rightarrow> nat \<Rightarrow> user \<Rightarrow> db \<Rightarrow> string + (string \<times> db)" where
  "generateRefreshToken L E now user d =
     (case REFRESH_SECRET E of
        None \<Rightarrow> Inl ''Missing REFRESH_SECRET in .env file''
      | Some secret \<Rightarrow>
          if secret = [] then Inl ''Missing REFRESH_SECRET in .env file''
          else
            (let refreshToken =
                   jwt_sign L \<lparr>p_userId = u_id user, p_email = None\<rparr> secret ''7d'' now;
                 user' = user\<lparr>refreshTokens := refreshTokens user @ [refreshToken]\<rparr>
             in Inr (refreshToken, d\<lparr>users := save_user user' (users d)\<rparr>)))"

section \<open>Auth gate\<close>

text \<open>\<^verbatim>\<open>s.split(" ")\<close> and the element at index 1, if there is one.\<close>

fun split_on :: "char \<Rightarrow> string \<Rightarrow> string list" where
  "split_on c [] = [[]]"
| "split_on c (x # xs) =
     (if x = c then [] # split_on c xs
      else (case split_on c xs of [] \<Rightarrow> [[x]] | p # ps \<Rightarrow> (x # p) # ps))"

fun second :: "'a list \<Rightarrow> 'a option" where
  "second (x # y # ys) = Some y"
| "second _ = None"

definition header_token :: "string option \<Rightarrow> string option" where
  "header_token authorization =
     (case authorization of
        None \<Rightarrow> None
      | Some h \<Rightarrow> second (split_on CHR '' '' h))"

datatype gate = Reject response | Next payload

definition authenticateUser :: "lib \<Rightarrow> env \<Rightarrow> nat \<Rightarrow> string option \<Rightarrow> gate" where
  "authenticateUser L E now authorization =
     (case header_token authorization of
        None \<Rightarrow> Reject (Response 401 (Message ''Unauthorized - No token provided''))
      | Some token \<Rightarrow>
          if token = [] then Reject (Response 401 (Message ''Unauthorized - No token provided''))
          else
            (case jwt_verify L token (JWT_SECRET E) now of
               None \<Rightarrow> Reject (Response 403 (Message ''Invalid or expired token''))
             | Some decoded \<Rightarrow> Next decoded))"

text \<open>
  A protected route, \<^verbatim>\<open>app.verb(path, authenticateUser, handler)\<close>: the handler runs
  only when the gate calls \<^verbatim>\<open>next()\<close>, with \<^verbatim>\<open>req.user\<close> set.
\<close>

definition protected ::
  "lib \<Rightarrow> env \<Rightarrow> nat \<Rightarrow> string option \<Rightarrow> (payload \<Rightarrow> db \<Rightarrow> response \<times> db) \<Rightarrow> db
     \<Rightarrow> response \<times> db" where
  "protected L E now authorization handler d =
     (case authenticateUser L E now authorization of
        Reject r \<Rightarrow> (r, d)
      | Next req_user \<Rightarrow> handler req_user d)"

section \<open>Authentication routes\<close>

text \<open>The loop of signup over all users, with its early return.\<close>

fun password_scan :: "lib \<Rightarrow> string \<Rightarrow> user list \<Rightarrow> response option" where
  "password_scan L pw [] = None"
| "password_scan L pw (u # us) =
     (if bcrypt_compare L pw (password u)
      then Some (Response 400 (Message ''This password has already been used''))
      else password_scan L pw us)"

definition duplicate_credentials :: "string \<Rightarrow> string \<Rightarrow> user list \<Rightarrow> response option" where
  "duplicate_credentials un em us =
     (case findOne (\<lambda>u. username u = un \<or> email u = em) us of
        None \<Rightarrow> None
      | Some existingUser \<Rightarrow>
          if username existingUser = un
          then Some (Response 400 (Message ''Username is already taken''))
          else if email existingUser = em
          then Some (Response 400 (Message ''Email is already in use''))
          else None)"

definition register_user ::
  "lib \<Rightarrow> env \<Rightarrow> nat \<Rightarrow> db \<Rightarrow> string \<Rightarrow> string \<Rightarrow> string \<Rightarrow> response \<times> db" where
  "register_user L E now d un em pw =
     (let hashedPassword = bcrypt_hash L pw 10;
          newUser = \<lparr>u_id = next_id d, username = un, email = em,
                     password = hashedPassword, refreshTokens = []\<rparr>;
          d1 = d\<lparr>users := save_user newUser (users d), next_id := Suc (next_id d)\<rparr>
      in case generateAccessToken L E now newUser of
           Inl e \<Rightarrow> (Response 500 (Message e), d1)
         | Inr accessToken \<Rightarrow>
             (case generateRefreshToken L E now newUser d1 of
                Inl e \<Rightarrow> (Response 500 (Message e), d1)
              | Inr (refreshToken, d2) \<Rightarrow>
                  (Response 201 (Tokens ''User registered'' accessToken refreshToken), d2)))"

definition signup :: "lib \<Rightarrow> env \<Rightarrow> nat \<Rightarrow> db \<Rightarrow> signup_body \<Rightarrow> response \<times> db" where
  "signup L E now d body =
     (let required = Response 400
            (Message ''All fields (username, email, password) are required.'')
      in case sb_username body of
           None \<Rightarrow> (required, d)
         | Some un \<Rightarrow>
         (case sb_email body of
            None \<Rightarrow> (required, d)
          | Some em \<Rightarrow>
          (case sb_password body of
             None \<Rightarrow> (required, d)
           | Some pw \<Rightarrow>
               if un = [] \<or> em = [] \<or> pw = [] then (required, d)
               else
                 (case duplicate_credentials un em (users d) of
                    Some r \<Rightarrow> (r, d)
                  | None \<Rightarrow>
                      (case password_scan L pw (users d) of
                         Some r \<Rightarrow> (r, d)
                       | None \<Rightarrow> register_user L E now d un em pw)))))"

definition login :: "lib \<Rightarrow> env \<Rightarrow> nat \<Rightarrow> db \<Rightarrow> login_body \<Rightarrow> response \<times> db" where
  "login L E now d body =
     (case findOne (\<lambda>u. email u = lb_email body) (users d) of
        None \<Rightarrow> (Response 400 (Message ''User with this email does not exists''), d)
      | Some user \<Rightarrow>
          if \<not> bcrypt_compare L (lb_password body) (password user)
          then (Response 400 (Message ''Invalid password''), d)
          else
            (case generateAccessToken L E now user of
               Inl e \<Rightarrow> (Response 500 (Message e), d)
             | Inr accessToken \<Rightarrow>
                 (case generateRefreshToken L E now user d of
                    Inl e \<Rightarrow> (Response 500 (Message e), d)
                  | Inr (refreshToken, d') \<Rightarrow>
                      (Response 200 (Tokens ''Login successful'' accessToken refreshToken),
                       d'))))"

text \<open>
  Refresh. The access token is generated inside the asynchronous callback of
  \<^verbatim>\<open>jwt.verify\<close>, outside the reach of the handler's \<^verbatim>\<open>try\<close>: when
  \<^verbatim>\<open>generateAccessToken\<close> throws there, nothing is sent.
\<close>

definition holds_token :: "string \<Rightarrow> user \<Rightarrow> bool" where
  "holds_token t u = (t \<in> set (refreshTokens u))"

definition refresh :: "lib \<Rightarrow> env \<Rightarrow> nat \<Rightarrow> db \<Rightarrow> string option \<Rightarrow> response \<times> db" where
  "refresh L E now d refreshToken =
     (let missing = Response 401 (Message ''Unauthorized - No refresh token provided'')
      in case refreshToken of
           None \<Rightarrow> (missing, d)
         | Some t \<Rightarrow>
             if t = [] then (missing, d)
             else
               (case findOne (holds_token t) (users d) of
                  None \<Rightarrow> (Response 403 (Message ''Invalid refresh token''), d)
                | Some user \<Rightarrow>
                    (case jwt_verify L t (REFRESH_SECRET E) now of
                       None \<Rightarrow> (Response 403 (Message ''Invalid refresh token''), d)
                     | Some decoded \<Rightarrow>
                         (case generateAccessToken L E now user of
                            Inl e \<Rightarrow> (NoResponse, d)
                          | Inr newAccessToken \<Rightarrow>
                              (Response 200 (AccessToken newAccessToken), d)))))"

definition logout :: "db \<Rightarrow> string \<Rightarrow> response \<times> db" where
  "logout d refreshToken =
     (case findOne (holds_token refreshToken) (users d) of
        None \<Rightarrow> (Response 403 (Message ''Invalid refresh token''), d)
      | Some user \<Rightarrow>
          (Response 200 (Message ''Logged out successfully''),
           d\<lparr>users := save_user
                (user\<lparr>refreshTokens :=
                   filter (\<lambda>token. token \<noteq> refreshToken) (refreshTokens user)\<rparr>)
                (users d)\<rparr>))"

definition logout_all :: "payload \<Rightarrow> db \<Rightarrow> response \<times> db" where
  "logout_all req_user d =
     (case findById (p_userId req_user) (users d) of
        None \<Rightarrow> (Response 403 (Message ''User not found''), d)
      | Some user \<Rightarrow>
          (Response 200 (Message ''Logged out from all devices''),
           d\<lparr>users := save_user (user\<lparr>refreshTokens := []\<rparr>) (users d)\<rparr>))"

definition route_logout_all ::
  "lib \<Rightarrow> env \<Rightarrow> nat \<Rightarrow> string option \<Rightarrow> db \<Rightarrow> response \<times> db" where
  "route_logout_all L E now authorization d = protected L E now authorization logout_all d"

section \<open>Bookmark routes\<close>

text \<open>
  \<^verbatim>\<open>new Bookmark({ ...req.body, userId: req.user.userId })\<close>: the body is spread first
  and \<^verbatim>\<open>userId\<close> is set after it. \<^verbatim>\<open>save()\<close> validates that \<^verbatim>\<open>userId\<close> is there
  (\<^verbatim>\<open>required: true\<close>); \<^verbatim>\<open>tags\<close> defaults to the empty list.
\<close>

definition create_bookmark :: "bookmark_body \<Rightarrow> payload \<Rightarrow> db \<Rightarrow> response \<times> db" where
  "create_bookmark body req_user d =
     (let obj = body\<lparr>bb_userId := Some (p_userId req_user)\<rparr>;
          d1 = d\<lparr>next_id := Suc (next_id d)\<rparr>
      in case bb_userId obj of
           None \<Rightarrow> (Response 500 (Message ''Bookmark validation failed''), d1)
         | Some owner \<Rightarrow>
             (let newBookmark =
                    \<lparr>b_id = next_id d, title = bb_title obj, url = bb_url obj,
                     category = bb_category obj,
                     tags = (case bb_tags obj of None \<Rightarrow> [] | Some ts \<Rightarrow> ts),
                     b_notes = bb_notes obj, userId = owner\<rparr>
              in (Response 201 (BookmarkDoc newBookmark),
                  d1\<lparr>bookmarks := bookmarks d1 @ [newBookmark]\<rparr>)))"

definition list_bookmarks :: "payload \<Rightarrow> db \<Rightarrow> response \<times> db" where
  "list_bookmarks req_user d =
     (Response 200
        (BookmarkList
           (sort_desc createdAt
              (filter (\<lambda>b. userId b = p_userId req_user) (bookmarks d)))),
      d)"

definition delete_bookmark :: "nat \<Rightarrow> payload \<Rightarrow> db \<Rightarrow> response \<times> db" where
  "delete_bookmark bid req_user d =
     (case findOneAndDelete (\<lambda>b. b_id b = bid \<and> userId b = p_userId req_user)
             (bookmarks d) of
        (None, rest) \<Rightarrow> (Response 404 (Message ''Bookmark not found or unauthorized''), d)
      | (Some deletedBookmark, rest) \<Rightarrow>
          (Response 200 (Message ''Bookmark deleted successfully''),
           d\<lparr>bookmarks := rest\<rparr>))"

definition route_create_bookmark ::
  "lib \<Rightarrow> env \<Rightarrow> nat \<Rightarrow> string option \<Rightarrow> bookmark_body \<Rightarrow> db \<Rightarrow> response \<times> db" where
  "route_create_bookmark L E now authorization body d =
     protected L E now authorization (create_bookmark body) d"

definition route_list_bookmarks ::
  "lib \<Rightarrow> env \<Rightarrow> nat \<Rightarrow> string option \<Rightarrow> db \<Rightarrow> response \<times> db" where
  "route_list_bookmarks L E now authorization d =
     protected L E now authorization list_bookmarks d"

definition route_delete_bookmark ::
  "lib \<Rightarrow> env \<Rightarrow> nat \<Rightarrow> string option \<Rightarrow> nat \<Rightarrow> db \<Rightarrow> response \<times> db" where
  "route_delete_bookmark L E now authorization bid d =
     protected L E now authorization (delete_bookmark bid) d"

section \<open>A test double and a small store\<close>

text \<open>
  A stand-in for the two libraries, an environment and a store with two users, used to
  run the handlers on concrete requests.
\<close>

definition test_lib :: lib where
  "test_lib =
     \<lparr>jwt_sign = (\<lambda>p secret expiresIn now.
          secret @ ''.'' @ (case p_email p of None \<Rightarrow> ''r'' | Some e \<Rightarrow> e)),
      jwt_verify = (\<lambda>token secret now.
          if secret = Some ''k1'' \<and> token = ''k1.ann@x.org''
          then Some \<lparr>p_userId = 1, p_email = Some ''ann@x.org''\<rparr>
          else if secret = Some ''k2'' \<and> token = ''k2.r''
          then Some \<lparr>p_userId = 1, p_email = None\<rparr>
          else None),
      bcrypt_hash = (\<lambda>pw cost. ''#'' @ pw),
      bcrypt_compare = (\<lambda>pw h. h = ''#'' @ pw)\<rparr>"

definition test_env :: env where
  "test_env = \<lparr>JWT_SECRET = Some ''k1'', REFRESH_SECRET = Some ''k2''\<rparr>"

definition env_without_refresh_secret :: env where
  "env_without_refresh_secret = \<lparr>JWT_SECRET = Some ''k1'', REFRESH_SECRET = None\<rparr>"

definition ann :: user where
  "ann = \<lparr>u_id = 1, username = ''ann'', email = ''ann@x.org'', password = ''#pw1'',
          refreshTokens = [''t1'', ''t2'']\<rparr>"

definition bob :: user where
  "bob = \<lparr>u_id = 2, username = ''bob'', email = ''bob@x.org'', password = ''#pw2'',
          refreshTokens = [''t3'']\<rparr>"

definition ann_payload :: payload where
  "ann_payload = \<lparr>p_userId = 1, p_email = Some ''ann@x.org''\<rparr>"

definition ann_header :: "string option" where
  "ann_header = Some ''Bearer k1.ann@x.org''"

definition bm :: "nat \<Rightarrow> string \<Rightarrow> nat \<Rightarrow> bookmark" where
  "bm i t owner = \<lparr>b_id = i, title = Some t, url = None, category = None, tags = [],
                   b_notes = None, userId = owner\<rparr>"

definition bm_body :: "string \<Rightarrow> nat option \<Rightarrow> bookmark_body" where
  "bm_body t owner = \<lparr>bb_title = Some t, bb_url = None, bb_category = None, bb_tags = None,
                      bb_notes = None, bb_userId = owner\<rparr>"

definition test_db :: db where
  "test_db = \<lparr>users = [ann, bob], bookmarks = [bm 3 ''a'' 1, bm 4 ''b'' 2], next_id = 5\<rparr>"

definition empty_db :: db where
  "empty_db = \<lparr>users = [], bookmarks = [], next_id = 0\<rparr>"

text \<open>The store after the same user has logged in twice at the same clock value.\<close>

definition ann_login :: login_body where
  "ann_login = \<lparr>lb_email = ''ann@x.org'', lb_password = ''pw1''\<rparr>"

definition two_logins_db :: db where
  "two_logins_db =
     snd (login test_lib test_env 7 (snd (login test_lib test_env 7 test_db ann_login)) ann_login)"

text \<open>The store after one user has created two bookmarks, at clock values 1 and 2.\<close>

definition two_bookmarks_db :: db where
  "two_bookmarks_db =
     snd (route_create_bookmark test_lib test_env 2 ann_header (bm_body ''second'' None)
       (snd (route_create_bookmark test_lib test_env 1 ann_header (bm_body ''first'' None)
          empty_db)))"

text \<open>The refresh-token collection of the stored user with a given id.\<close>

definition tokens_of :: "nat \<Rightarrow> db \<Rightarrow> string list" where
  "tokens_of i d = (case findById i (users d) of None \<Rightarrow> [] | Some u \<Rightarrow> refreshTokens u)"

section \<open>Stores the handlers can produce\<close>

text \<open>
  Every refresh token that the handlers store was signed by \<^verbatim>\<open>generateRefreshToken\<close> for
  the user who holds it, and every id in the store came from the counter. \<open>store_inv\<close>
  states this of a store; \<open>sign_names_user\<close> states of the library that a token string
  determines the user id it was signed over (the payload is part of a JWT).
\<close>

definition issued_for :: "lib \<Rightarrow> nat \<Rightarrow> string \<Rightarrow> bool" where
  "issued_for L i t =
     (\<exists>secret now. t = jwt_sign L \<lparr>p_userId = i, p_email = None\<rparr> secret ''7d'' now)"

definition store_inv :: "lib \<Rightarrow> db \<Rightarrow> bool" where
  "store_inv L d =
     (distinct (map u_id (users d)) \<and>
      (\<forall>u\<in>set (users d). u_id u < next_id d \<and>
         (\<forall>t\<in>set (refreshTokens u). issued_for L (u_id u) t)))"

definition sign_names_user :: "lib \<Rightarrow> bool" where
  "sign_names_user L =
     (\<forall>p s e n p' s' e' n'.
        jwt_sign L p s e n = jwt_sign L p' s' e' n' \<longrightarrow> p_userId p = p_userId p')"

text \<open>
  The stores that a sequence of requests produces from the empty store, with one library
  and any configuration, clock and request at each step.
\<close>

inductive reachable :: "lib \<Rightarrow> db \<Rightarrow> bool" for L :: lib where
  start: "reachable L empty_db"
| after_signup: "reachable L d \<Longrightarrow> reachable L (snd (signup L E now d sbody))"
| after_login: "reachable L d \<Longrightarrow> reachable L (snd (login L E now d lbody))"
| after_refresh: "reachable L d \<Longrightarrow> reachable L (snd (refresh L E now d rt))"
| after_logout: "reachable L d \<Longrightarrow> reachable L (snd (logout d t))"
| after_logout_all:
    "reachable L d \<Longrightarrow> reachable L (snd (route_logout_all L E now authorization d))"
| after_create:
    "reachable L d \<Longrightarrow> reachable L (snd (route_create_bookmark L E now authorization bbody d))"
| after_list:
    "reachable L d \<Longrightarrow> reachable L (snd (route_list_bookmarks L E now authorization d))"
| after_delete:
    "reachable L d \<Longrightarrow> reachable L (snd (route_delete_bookmark L E now authorization bid d))"

section \<open>Facts about the store operations\<close>

lemma findOne_None: "\<forall>x\<in>set xs. \<not> P x \<Longrightarrow> findOne P xs = None"
  by (induction xs) auto

lemma findOne_Some_holds: "findOne P xs = Some x \<Longrightarrow> P x \<and> x \<in> set xs"
  by (induction xs) (auto split: if_splits)

lemma findById_save_user:
  "findById i (save_user u us) = (if i = u_id u then Some u else findById i us)"
  by (induction us) (auto simp: findById_def)

lemma map_id_save_user:
  "v \<in> set us \<Longrightarrow> u_id v = u_id u \<Longrightarrow> map u_id (save_user u us) = map u_id us"
  by (induction us) auto

lemma set_save_user_distinct:
  "distinct (map u_id us) \<Longrightarrow>
   set (save_user u us) \<subseteq> insert u {v \<in> set us. u_id v \<noteq> u_id u}"
  by (induction us) (auto simp: image_iff)


lemma insert_desc_const: "(\<And>x. k x = None) \<Longrightarrow> insert_desc k x ys = x # ys"
  by (cases ys) auto

lemma sort_desc_const: "(\<And>x. k x = None) \<Longrightarrow> sort_desc k xs = xs"
  by (induction xs) (auto simp: insert_desc_const)

lemma split_on_no_sep: "c \<notin> set t \<Longrightarrow> split_on c t = [t]"
  by (induction t) auto

lemma password_scan_hit:
  "u \<in> set us \<Longrightarrow> bcrypt_compare L pw (password u) \<Longrightarrow>
   password_scan L pw us = Some (Response 400 (Message ''This password has already been used''))"
  by (induction us) auto

lemma duplicate_credentials_400:
  "duplicate_credentials un em us = Some r \<Longrightarrow>
   r = Response 400 (Message ''Username is already taken'') \<or>
   r = Response 400 (Message ''Email is already in use'')"
  by (auto simp: duplicate_credentials_def split: option.splits if_splits)

text \<open>The two fixture stores, evaluated.\<close>

lemma two_logins_db_eq:
  "two_logins_db =
     test_db\<lparr>users := [ann\<lparr>refreshTokens := [''t1'', ''t2'', ''k2.r'', ''k2.r'']\<rparr>, bob]\<rparr>"
  by (simp add: two_logins_db_def login_def generateAccessToken_def generateRefreshToken_def
      Let_def test_db_def ann_def bob_def test_lib_def test_env_def ann_login_def)

lemma ann_header_accepted:
  "authenticateUser test_lib test_env now ann_header = Next ann_payload"
  by (simp add: authenticateUser_def header_token_def ann_header_def test_lib_def
      test_env_def ann_payload_def)

lemma two_bookmarks_db_eq:
  "two_bookmarks_db =
     \<lparr>users = [], bookmarks = [bm 0 ''first'' 1, bm 1 ''second'' 1], next_id = 2\<rparr>"
  by (simp add: two_bookmarks_db_def route_create_bookmark_def protected_def
      ann_header_accepted create_bookmark_def Let_def bm_body_def bm_def ann_payload_def
      empty_db_def)

section \<open>The store invariant is kept by every handler\<close>

lemma ids_save_user: "set (map u_id (save_user u us)) = insert (u_id u) (set (map u_id us))"
  by (induction us) auto

lemma distinct_save_user:
  "distinct (map u_id us) \<Longrightarrow> distinct (map u_id (save_user u us))"
proof (induction us)
  case Nil
  then show ?case by simp
next
  case (Cons v vs)
  have "u_id v \<notin> set (map u_id (save_user u vs))" if "u_id v \<noteq> u_id u"
    using that Cons.prems by (simp only: ids_save_user) auto
  with Cons show ?case by auto
qed

lemma set_save_user: "set (save_user u us) \<subseteq> insert u (set us)"
  by (induction us) auto

lemma store_inv_save_user:
  assumes "store_inv L d"
    and "u_id u < next_id d"
    and "\<forall>t\<in>set (refreshTokens u). issued_for L (u_id u) t"
  shows "store_inv L (d\<lparr>users := save_user u (users d)\<rparr>)"
  using assms set_save_user [of u "users d"]
  by (auto simp: store_inv_def distinct_save_user)

lemma store_inv_next_id:
  "store_inv L d \<Longrightarrow> store_inv L (d\<lparr>next_id := Suc (next_id d)\<rparr>)"
  by (auto simp: store_inv_def less_Suc_eq)

lemma store_inv_bookmarks:
  "store_inv L (d\<lparr>bookmarks := bs\<rparr>) = store_inv L d"
  by (simp add: store_inv_def)

lemma store_inv_empty: "store_inv L empty_db"
  by (simp add: store_inv_def empty_db_def)

lemma store_inv_generateRefreshToken:
  assumes "store_inv L d" and "u_id u < next_id d"
    and "\<forall>t\<in>set (refreshTokens u). issued_for L (u_id u) t"
    and "generateRefreshToken L E now u d = Inr (r, d')"
  shows "store_inv L d'"
proof -
  from assms(4) obtain secret where
    r: "r = jwt_sign L \<lparr>p_userId = u_id u, p_email = None\<rparr> secret ''7d'' now" and
    d': "d' = d\<lparr>users := save_user (u\<lparr>refreshTokens := refreshTokens u @ [r]\<rparr>) (users d)\<rparr>"
    by (auto simp: generateRefreshToken_def Let_def split: option.splits if_splits)
  have "issued_for L (u_id u) r"
    unfolding issued_for_def r by blast
  with assms(1-3) show ?thesis
    unfolding d' by (intro store_inv_save_user) auto
qed

lemma store_inv_login:
  assumes "store_inv L d"
  shows "store_inv L (snd (login L E now d body))"
proof (cases "findOne (\<lambda>u. email u = lb_email body) (users d)")
  case None
  then show ?thesis using assms by (simp add: login_def)
next
  case (Some u)
  then have mem: "u \<in> set (users d)" by (simp add: findOne_Some_holds)
  with assms have u: "u_id u < next_id d" "\<forall>t\<in>set (refreshTokens u). issued_for L (u_id u) t"
    by (auto simp: store_inv_def)
  show ?thesis
  proof (cases "generateRefreshToken L E now u d")
    case (Inl e)
    then show ?thesis using Some assms by (simp add: login_def split: sum.splits)
  next
    case (Inr p)
    obtain r d' where p: "p = (r, d')" by (cases p)
    from store_inv_generateRefreshToken [OF assms u Inr [unfolded p]]
    show ?thesis using Some assms Inr p by (simp add: login_def split: sum.splits)
  qed
qed

lemma store_inv_register_user:
  assumes "store_inv L d"
  shows "store_inv L (snd (register_user L E now d un em pw))"
proof -
  define newUser where "newUser = \<lparr>u_id = next_id d, username = un, email = em,
      password = bcrypt_hash L pw 10, refreshTokens = []\<rparr>"
  define d1 where "d1 = d\<lparr>users := save_user newUser (users d), next_id := Suc (next_id d)\<rparr>"
  have "store_inv L (d\<lparr>next_id := Suc (next_id d)\<rparr>)"
    using assms by (rule store_inv_next_id)
  then have "store_inv L (d\<lparr>next_id := Suc (next_id d)\<rparr>
      \<lparr>users := save_user newUser (users (d\<lparr>next_id := Suc (next_id d)\<rparr>))\<rparr>)"
    by (rule store_inv_save_user) (simp_all add: newUser_def)
  then have d1: "store_inv L d1" by (simp add: d1_def store_inv_def)
  have nu: "u_id newUser < next_id d1" "\<forall>t\<in>set (refreshTokens newUser). issued_for L (u_id newUser) t"
    by (simp_all add: newUser_def d1_def)
  show ?thesis
  proof (cases "generateRefreshToken L E now newUser d1")
    case (Inl e)
    then show ?thesis using d1
      by (simp add: register_user_def Let_def newUser_def [symmetric] d1_def [symmetric]
          split: sum.splits)
  next
    case (Inr p)
    obtain r d2 where p: "p = (r, d2)" by (cases p)
    from store_inv_generateRefreshToken [OF d1 nu Inr [unfolded p]]
    show ?thesis using d1 Inr p
      by (simp add: register_user_def Let_def newUser_def [symmetric] d1_def [symmetric]
          split: sum.splits)
  qed
qed

lemma store_inv_signup:
  "store_inv L d \<Longrightarrow> store_inv L (snd (signup L E now d body))"
  by (simp add: signup_def Let_def store_inv_register_user split: option.splits)

lemma store_inv_logout:
  assumes "store_inv L d"
  shows "store_inv L (snd (logout d t))"
proof (cases "findOne (holds_token t) (users d)")
  case None
  then show ?thesis using assms by (simp add: logout_def)
next
  case (Some u)
  then have "u \<in> set (users d)" by (simp add: findOne_Some_holds)
  with assms have "store_inv L
      (d\<lparr>users := save_user (u\<lparr>refreshTokens := filter (\<lambda>x. x \<noteq> t) (refreshTokens u)\<rparr>) (users d)\<rparr>)"
    by (intro store_inv_save_user) (auto simp: store_inv_def)
  then show ?thesis using Some by (simp add: logout_def)
qed

lemma store_inv_logout_all:
  assumes "store_inv L d"
  shows "store_inv L (snd (logout_all req_user d))"
proof (cases "findById (p_userId req_user) (users d)")
  case None
  then show ?thesis using assms by (simp add: logout_all_def)
next
  case (Some u)
  then have "u \<in> set (users d)" by (simp add: findById_def findOne_Some_holds)
  with assms have "store_inv L (d\<lparr>users := save_user (u\<lparr>refreshTokens := []\<rparr>) (users d)\<rparr>)"
    by (intro store_inv_save_user) (auto simp: store_inv_def)
  then show ?thesis using Some by (simp add: logout_all_def)
qed

lemma store_inv_refresh: "store_inv L d \<Longrightarrow> store_inv L (snd (refresh L E now d rt))"
  by (simp add: refresh_def Let_def split: option.splits sum.splits)

lemma store_inv_create_bookmark:
  "store_inv L d \<Longrightarrow> store_inv L (snd (create_bookmark body req_user d))"
  by (simp add: create_bookmark_def Let_def store_inv_bookmarks store_inv_next_id)

lemma store_inv_list_bookmarks:
  "store_inv L d \<Longrightarrow> store_inv L (snd (list_bookmarks req_user d))"
  by (simp add: list_bookmarks_def)

lemma store_inv_delete_bookmark:
  "store_inv L d \<Longrightarrow> store_inv L (snd (delete_bookmark bid req_user d))"
  by (simp add: delete_bookmark_def store_inv_bookmarks split: prod.splits option.splits)

lemma store_inv_protected:
  assumes "\<And>req_user. store_inv L (snd (handler req_user d))" and "store_inv L d"
  shows "store_inv L (snd (protected L' E now authorization handler d))"
  using assms by (simp add: protected_def split: gate.splits)

lemma store_inv_tokens_not_shared:
  assumes "store_inv L d" and "sign_names_user L"
    and "u \<in> set (users d)" and "t \<in> set (refreshTokens u)"
  shows "\<forall>v\<in>set (users d). t \<in> set (refreshTokens v) \<longrightarrow> u_id v = u_id u"
proof (intro ballI impI)
  fix v assume v: "v \<in> set (users d)" "t \<in> set (refreshTokens v)"
  from assms(1,3,4) have "issued_for L (u_id u) t" by (auto simp: store_inv_def)
  moreover from assms(1) v have "issued_for L (u_id v) t" by (auto simp: store_inv_def)
  ultimately show "u_id v = u_id u"
    using assms(2) unfolding issued_for_def sign_names_user_def
    by (metis payload.select_convs(1))
qed

lemma reachable_store_inv: "reachable L d \<Longrightarrow> store_inv L d"
proof (induction rule: reachable.induct)
  case start
  show ?case by (rule store_inv_empty)
next
  case (after_signup d E now sbody)
  then show ?case by (simp add: store_inv_signup)
next
  case (after_login d E now lbody)
  then show ?case by (simp add: store_inv_login)
next
  case (after_refresh d E now rt)
  then show ?case by (simp add: store_inv_refresh)
next
  case (after_logout d t)
  then show ?case by (simp add: store_inv_logout)
next
  case (after_logout_all d E now authorization)
  then show ?case
    unfolding route_logout_all_def by (intro store_inv_protected store_inv_logout_all)
next
  case (after_create d E now authorization bbody)
  then show ?case
    unfolding route_create_bookmark_def by (intro store_inv_protected store_inv_create_bookmark)
next
  case (after_list d E now authorization)
  then show ?case
    unfolding route_list_bookmarks_def by (intro store_inv_protected store_inv_list_bookmarks)
next
  case (after_delete d E now authorization bid)
  then show ?case
    unfolding route_delete_bookmark_def by (intro store_inv_protected store_inv_delete_bookmark)
qed

text \<open>
  In a reachable store, under a library whose tokens name their user, ids are unique and
  a refresh token is in one user's collection only.
\<close>

lemma reachable_ids_distinct: "reachable L d \<Longrightarrow> distinct (map u_id (users d))"
  using reachable_store_inv [of L d] by (simp add: store_inv_def)

lemma reachable_tokens_not_shared:
  assumes "reachable L d" and "sign_names_user L"
    and "u \<in> set (users d)" and "t \<in> set (refreshTokens u)"
  shows "\<forall>v\<in>set (users d). t \<in> set (refreshTokens v) \<longrightarrow> u_id v = u_id u"
  using store_inv_tokens_not_shared [OF reachable_store_inv [OF assms(1)] assms(2-4)] .

section \<open>Refresh\<close>

text \<open>
  C1, as stated, at the empty token string: no user holds it, and the handler answers 401
  "no refresh token provided", not 403 "invalid refresh token".
\<close>

theorem refresh_unknown_token_counterexample:
  "\<not> list_ex (holds_token []) (users test_db) \<and>
   fst (refresh test_lib test_env 0 test_db (Some [])) =
     Response 401 (Message ''Unauthorized - No refresh token provided'') \<and>
   fst (refresh test_lib test_env 0 test_db (Some [])) \<noteq>
     Response 403 (Message ''Invalid refresh token'')"
  by (simp add: refresh_def test_db_def holds_token_def ann_def bob_def)

text \<open>
  C1, amended: a refresh request whose token string is held by no user is answered 403
  "Invalid refresh token" when the string is not empty and 401 when it is empty; in both
  cases the body is a message, no access token is issued and the store is unchanged. This
  holds whatever \<^verbatim>\<open>jwt.verify\<close> would say about the token: the lookup comes first.
\<close>

theorem refresh_unknown_token_rejected:
  assumes "\<forall>u\<in>set (users d). t \<notin> set (refreshTokens u)"
  shows "refresh L E now d (Some t) =
           (if t = [] then Response 401 (Message ''Unauthorized - No refresh token provided'')
            else Response 403 (Message ''Invalid refresh token''), d)"
proof -
  have "findOne (holds_token t) (users d) = None"
    using assms by (intro findOne_None) (simp add: holds_token_def)
  then show ?thesis by (simp add: refresh_def)
qed

text \<open>The run: a token that verifies under the refresh secret and that nobody holds.\<close>

theorem refresh_unknown_token_rejected_witness:
  "jwt_verify test_lib ''k2.r'' (REFRESH_SECRET test_env) 0 \<noteq> None \<and>
   refresh test_lib test_env 0 test_db (Some ''k2.r'') =
     (Response 403 (Message ''Invalid refresh token''), test_db)"
  using refresh_unknown_token_rejected [of test_db "''k2.r''" test_lib test_env 0]
  by (simp add: test_db_def ann_def bob_def test_lib_def test_env_def)

text \<open>
  C5: a refresh answered with 200 returns one access token, signed for the first user
  holding the refresh token with the access secret and the 15 minute lifetime, and leaves
  the store as it was: no refresh token is rotated, removed or appended.
\<close>

theorem refresh_changes_nothing:
  assumes "refresh L E now d rt = (Response 200 b, d')"
  shows "d' = d \<and>
         (\<exists>t u secret. rt = Some t \<and> findOne (holds_token t) (users d) = Some u \<and>
            JWT_SECRET E = Some secret \<and>
            b = AccessToken (jwt_sign L \<lparr>p_userId = u_id u, p_email = Some (email u)\<rparr>
                               secret ''15m'' now))"
  using assms
  by (auto simp: refresh_def generateAccessToken_def Let_def
           split: option.splits if_splits sum.splits)

theorem refresh_changes_nothing_witness:
  "refresh test_lib test_env 7 (test_db\<lparr>users := [ann\<lparr>refreshTokens := [''k2.r'']\<rparr>, bob]\<rparr>)
     (Some ''k2.r'') =
     (Response 200 (AccessToken ''k1.ann@x.org''),
      test_db\<lparr>users := [ann\<lparr>refreshTokens := [''k2.r'']\<rparr>, bob]\<rparr>)"
proof -
  have run: "refresh test_lib test_env 7
       (test_db\<lparr>users := [ann\<lparr>refreshTokens := [''k2.r'']\<rparr>, bob]\<rparr>) (Some ''k2.r'') =
     (Response 200 (AccessToken ''k1.ann@x.org''),
      snd (refresh test_lib test_env 7
       (test_db\<lparr>users := [ann\<lparr>refreshTokens := [''k2.r'']\<rparr>, bob]\<rparr>) (Some ''k2.r'')))"
    by (simp add: refresh_def generateAccessToken_def test_db_def ann_def bob_def
        test_lib_def test_env_def holds_token_def)
  from refresh_changes_nothing [OF run] show ?thesis using run by simp
qed

section \<open>Signup\<close>

text \<open>
  C2: when the password of a signup request compares equal, by \<^verbatim>\<open>bcrypt.compare\<close>, to
  the stored hash of any user in the store, whatever that user's name and email, the
  answer is a 400 with a message and the store is unchanged: no user is created.
\<close>

theorem signup_rejects_used_password:
  assumes "sb_password body = Some pw"
    and "u \<in> set (users d)"
    and "bcrypt_compare L pw (password u)"
  shows "\<exists>msg. signup L E now d body = (Response 400 (Message msg), d)"
proof -
  have scan: "password_scan L pw (users d) =
      Some (Response 400 (Message ''This password has already been used''))"
    using assms(2,3) by (rule password_scan_hit)
  show ?thesis
  proof (cases "sb_username body")
    case None
    then show ?thesis by (simp add: signup_def)
  next
    case un: (Some un)
    show ?thesis
    proof (cases "sb_email body")
      case None
      then show ?thesis using un by (simp add: signup_def)
    next
      case em: (Some em)
      show ?thesis
      proof (cases "duplicate_credentials un em (users d)")
        case None
        then show ?thesis using un em assms(1) scan by (simp add: signup_def)
      next
        case (Some r)
        then show ?thesis
          using un em assms(1) duplicate_credentials_400 [OF Some]
          by (auto simp: signup_def)
      qed
    qed
  qed
qed

theorem signup_rejects_used_password_witness:
  "signup test_lib test_env 0 test_db
     \<lparr>sb_username = Some ''cat'', sb_email = Some ''cat@x.org'', sb_password = Some ''pw2''\<rparr>
   = (Response 400 (Message ''This password has already been used''), test_db)"
proof -
  have "\<exists>msg. signup test_lib test_env 0 test_db
     \<lparr>sb_username = Some ''cat'', sb_email = Some ''cat@x.org'', sb_password = Some ''pw2''\<rparr>
     = (Response 400 (Message msg), test_db)"
    by (rule signup_rejects_used_password [where pw = "''pw2''" and u = bob])
       (simp_all add: test_db_def bob_def test_lib_def)
  moreover have "fst (signup test_lib test_env 0 test_db
     \<lparr>sb_username = Some ''cat'', sb_email = Some ''cat@x.org'', sb_password = Some ''pw2''\<rparr>)
     = Response 400 (Message ''This password has already been used'')"
    by (simp add: signup_def test_db_def ann_def bob_def test_lib_def
        duplicate_credentials_def)
  ultimately show ?thesis by auto
qed

section \<open>Logout\<close>

text \<open>
  C3, as stated, after two logins of one user at the same clock value: the two refresh
  tokens are the same string, the collection holds it twice, and logout leaves no copy,
  where removing exactly one entry would leave the duplicate.
\<close>

theorem logout_one_entry_counterexample:
  "tokens_of 1 two_logins_db = [''t1'', ''t2'', ''k2.r'', ''k2.r''] \<and>
   fst (logout two_logins_db ''k2.r'') = Response 200 (Message ''Logged out successfully'') \<and>
   tokens_of 1 (snd (logout two_logins_db ''k2.r'')) = [''t1'', ''t2''] \<and>
   tokens_of 1 (snd (logout two_logins_db ''k2.r'')) \<noteq>
     remove1 ''k2.r'' (tokens_of 1 two_logins_db)"
  by (simp add: two_logins_db_eq tokens_of_def findById_def logout_def ann_def bob_def
      holds_token_def test_db_def)

text \<open>
  C3, amended: let \<open>u\<close> be the user that the lookup by token returns, the first user in
  store order whose collection contains the token. Logout answers 200 and persists \<open>u\<close>
  with every entry equal to the token removed, duplicates included, and every other entry
  kept in its order; every other user, the bookmarks and the set of user ids are as
  before.
\<close>

theorem logout_removes_every_copy:
  assumes "findOne (holds_token t) (users d) = Some u"
  shows "\<exists>d'. logout d t = (Response 200 (Message ''Logged out successfully''), d') \<and>
           findById (u_id u) (users d') =
             Some (u\<lparr>refreshTokens := filter (\<lambda>x. x \<noteq> t) (refreshTokens u)\<rparr>) \<and>
           (\<forall>i. i \<noteq> u_id u \<longrightarrow> findById i (users d') = findById i (users d)) \<and>
           map u_id (users d') = map u_id (users d) \<and>
           bookmarks d' = bookmarks d \<and> next_id d' = next_id d"
proof -
  from assms have "u \<in> set (users d)" by (simp add: findOne_Some_holds)
  then have "map u_id (save_user (u\<lparr>refreshTokens := filter (\<lambda>x. x \<noteq> t) (refreshTokens u)\<rparr>)
      (users d)) = map u_id (users d)"
    by (rule map_id_save_user) simp
  then show ?thesis using assms by (simp add: logout_def findById_save_user)
qed

theorem logout_removes_every_copy_witness:
  "logout two_logins_db ''k2.r'' =
     (Response 200 (Message ''Logged out successfully''), test_db) \<and>
   findById 2 (users (snd (logout two_logins_db ''k2.r''))) = Some bob"
proof -
  have found: "findOne (holds_token ''k2.r'') (users two_logins_db) =
      Some (ann\<lparr>refreshTokens := [''t1'', ''t2'', ''k2.r'', ''k2.r'']\<rparr>)"
    by (simp add: two_logins_db_eq test_db_def ann_def holds_token_def)
  have run: "snd (logout two_logins_db ''k2.r'') = test_db"
    by (simp add: logout_def two_logins_db_eq test_db_def ann_def bob_def holds_token_def)
  from logout_removes_every_copy [OF found] run show ?thesis
    by (auto simp: test_db_def ann_def bob_def findById_def)
qed

section \<open>Logout from all devices\<close>

text \<open>
  C4: an authenticated logout-all request by an existing user \<open>u\<close> answers 200 and
  persists \<open>u\<close> with an empty refresh-token collection. A later refresh, at any time and
  under any configuration, with a token \<open>t\<close> of that collection is rejected (403, or 401
  for the empty string) and issues nothing. The store is one where \<^verbatim>\<open>_id\<close> is unique
  and where \<open>t\<close> is in no other user's collection: both hold in every reachable store
  (\<open>reachable_ids_distinct\<close>, \<open>reachable_tokens_not_shared\<close>), since a refresh token
  carries the id of the user it was signed for.
\<close>

theorem logout_all_clears_tokens:
  assumes gate: "authenticateUser L E now authorization = Next req_user"
    and ex: "findById (p_userId req_user) (users d) = Some u"
    and ids: "distinct (map u_id (users d))"
    and own: "\<forall>v\<in>set (users d). t \<in> set (refreshTokens v) \<longrightarrow> u_id v = u_id u"
  shows "\<exists>d'. route_logout_all L E now authorization d =
             (Response 200 (Message ''Logged out from all devices''), d') \<and>
           findById (p_userId req_user) (users d') = Some (u\<lparr>refreshTokens := []\<rparr>) \<and>
           tokens_of (p_userId req_user) d' = [] \<and>
           bookmarks d' = bookmarks d \<and>
           refresh L' E' now' d' (Some t) =
             (if t = [] then Response 401 (Message ''Unauthorized - No refresh token provided'')
              else Response 403 (Message ''Invalid refresh token''), d')"
proof -
  define u' where "u' = u\<lparr>refreshTokens := []\<rparr>"
  define d' where "d' = d\<lparr>users := save_user u' (users d)\<rparr>"
  from ex have uid: "u_id u = p_userId req_user" and mem: "u \<in> set (users d)"
    using findOne_Some_holds [of "\<lambda>u. u_id u = p_userId req_user" "users d" u]
    by (simp_all add: findById_def)
  have run: "route_logout_all L E now authorization d =
      (Response 200 (Message ''Logged out from all devices''), d')"
    using gate ex by (simp add: route_logout_all_def protected_def logout_all_def d'_def u'_def)
  have stored: "findById (p_userId req_user) (users d') = Some u'"
    using uid by (simp add: d'_def findById_save_user u'_def)
  have "set (users d') \<subseteq> insert u' {v \<in> set (users d). u_id v \<noteq> u_id u'}"
    using set_save_user_distinct [OF ids, of u'] by (simp add: d'_def)
  then have nobody: "\<forall>v\<in>set (users d'). t \<notin> set (refreshTokens v)"
    using own by (auto simp: u'_def)
  have "refresh L' E' now' d' (Some t) =
      (if t = [] then Response 401 (Message ''Unauthorized - No refresh token provided'')
       else Response 403 (Message ''Invalid refresh token''), d')"
  proof -
    have "findOne (holds_token t) (users d') = None"
      using nobody by (intro findOne_None) (simp add: holds_token_def)
    then show ?thesis by (simp add: refresh_def)
  qed
  with run stored show ?thesis
    by (simp add: tokens_of_def u'_def d'_def)
qed

theorem logout_all_clears_tokens_witness:
  "route_logout_all test_lib test_env 0 ann_header test_db =
     (Response 200 (Message ''Logged out from all devices''),
      test_db\<lparr>users := [ann\<lparr>refreshTokens := []\<rparr>, bob]\<rparr>) \<and>
   refresh test_lib test_env 1 (test_db\<lparr>users := [ann\<lparr>refreshTokens := []\<rparr>, bob]\<rparr>)
       (Some ''t1'') =
     (Response 403 (Message ''Invalid refresh token''),
      test_db\<lparr>users := [ann\<lparr>refreshTokens := []\<rparr>, bob]\<rparr>)"
proof -
  have gate: "authenticateUser test_lib test_env 0 ann_header = Next ann_payload"
    by (simp add: authenticateUser_def header_token_def ann_header_def test_lib_def
        test_env_def ann_payload_def)
  have ex: "findById (p_userId ann_payload) (users test_db) = Some ann"
    by (simp add: findById_def ann_payload_def test_db_def ann_def)
  have ids: "distinct (map u_id (users test_db))"
    by (simp add: test_db_def ann_def bob_def)
  have own: "\<forall>v\<in>set (users test_db). ''t1'' \<in> set (refreshTokens v) \<longrightarrow> u_id v = u_id ann"
    by (simp add: test_db_def ann_def bob_def)
  have run: "snd (route_logout_all test_lib test_env 0 ann_header test_db) =
      test_db\<lparr>users := [ann\<lparr>refreshTokens := []\<rparr>, bob]\<rparr>"
    using gate ex
    by (simp add: route_logout_all_def protected_def logout_all_def)
       (simp add: test_db_def ann_def bob_def)
  from logout_all_clears_tokens [OF gate ex ids own, of test_lib test_env 1] run
  show ?thesis by auto
qed

section \<open>Auth gate\<close>



section \<open>Login\<close>

text \<open>
  C8, as stated, with \<^verbatim>\<open>REFRESH_SECRET\<close> not configured: the email matches a user and the
  password matches the stored hash, and login answers 500 without any token.
\<close>

theorem login_missing_secret_counterexample:
  "findOne (\<lambda>u. email u = ''ann@x.org'') (users test_db) = Some ann \<and>
   bcrypt_compare test_lib ''pw1'' (password ann) \<and>
   login test_lib env_without_refresh_secret 0 test_db
       \<lparr>lb_email = ''ann@x.org'', lb_password = ''pw1''\<rparr> =
     (Response 500 (Message ''Missing REFRESH_SECRET in .env file''), test_db)"
  by (simp add: login_def generateAccessToken_def generateRefreshToken_def test_db_def
      ann_def bob_def test_lib_def env_without_refresh_secret_def)

text \<open>
  C8, amended: when both signing secrets are configured (defined and not empty), a login
  whose email matches a user and whose password matches that user's stored hash answers
  200 with an access token and a refresh token; the refresh token has been appended to the
  user's persisted collection; and the gate, given \<^verbatim>\<open>Bearer\<close> and the access token,
  accepts it with the identity of that user whenever \<^verbatim>\<open>jwt.verify\<close> accepts the token
  that \<^verbatim>\<open>jwt.sign\<close> has just produced under the same secret.
\<close>

theorem login_issues_tokens:
  assumes user: "findOne (\<lambda>u. email u = lb_email body) (users d) = Some u"
    and pw: "bcrypt_compare L (lb_password body) (password u)"
    and s1: "JWT_SECRET E = Some s1" "s1 \<noteq> []"
    and s2: "REFRESH_SECRET E = Some s2" "s2 \<noteq> []"
    and a: "a = jwt_sign L \<lparr>p_userId = u_id u, p_email = Some (email u)\<rparr> s1 ''15m'' now"
    and r: "r = jwt_sign L \<lparr>p_userId = u_id u, p_email = None\<rparr> s2 ''7d'' now"
    and shape: "a \<noteq> []" "CHR '' '' \<notin> set a"
    and verify: "jwt_verify L a (Some s1) now' =
                   Some \<lparr>p_userId = u_id u, p_email = Some (email u)\<rparr>"
  shows "\<exists>d'. login L E now d body = (Response 200 (Tokens ''Login successful'' a r), d') \<and>
           authenticateUser L E now' (Some (''Bearer '' @ a)) =
             Next \<lparr>p_userId = u_id u, p_email = Some (email u)\<rparr> \<and>
           findById (u_id u) (users d') = Some (u\<lparr>refreshTokens := refreshTokens u @ [r]\<rparr>) \<and>
           r \<in> set (tokens_of (u_id u) d') \<and>
           bookmarks d' = bookmarks d"
proof -
  have "authenticateUser L E now' (Some (''Bearer '' @ a)) =
      Next \<lparr>p_userId = u_id u, p_email = Some (email u)\<rparr>"
    using shape verify s1
    by (simp add: authenticateUser_def header_token_def split_on_no_sep)
  moreover have "login L E now d body =
      (Response 200 (Tokens ''Login successful'' a r),
       d\<lparr>users := save_user (u\<lparr>refreshTokens := refreshTokens u @ [r]\<rparr>) (users d)\<rparr>)"
    using user pw s1 s2 a r
    by (simp add: login_def generateAccessToken_def generateRefreshToken_def Let_def)
  ultimately show ?thesis
    by (simp add: findById_save_user tokens_of_def)
qed

theorem login_issues_tokens_witness:
  "login test_lib test_env 0 test_db \<lparr>lb_email = ''ann@x.org'', lb_password = ''pw1''\<rparr> =
     (Response 200 (Tokens ''Login successful'' ''k1.ann@x.org'' ''k2.r''),
      test_db\<lparr>users := [ann\<lparr>refreshTokens := [''t1'', ''t2'', ''k2.r'']\<rparr>, bob]\<rparr>) \<and>
   authenticateUser test_lib test_env 5 (Some ''Bearer k1.ann@x.org'') = Next ann_payload"
proof -
  have user: "findOne (\<lambda>u. email u = lb_email \<lparr>lb_email = ''ann@x.org'', lb_password = ''pw1''\<rparr>)
      (users test_db) = Some ann"
    by (simp add: test_db_def ann_def)
  have pw: "bcrypt_compare test_lib (lb_password \<lparr>lb_email = ''ann@x.org'', lb_password = ''pw1''\<rparr>)
      (password ann)"
    by (simp add: test_lib_def ann_def)
  have a: "''k1.ann@x.org'' =
      jwt_sign test_lib \<lparr>p_userId = u_id ann, p_email = Some (email ann)\<rparr> ''k1'' ''15m'' 0"
    by (simp add: test_lib_def ann_def)
  have r: "''k2.r'' = jwt_sign test_lib \<lparr>p_userId = u_id ann, p_email = None\<rparr> ''k2'' ''7d'' 0"
    by (simp add: test_lib_def)
  have verify: "jwt_verify test_lib ''k1.ann@x.org'' (Some ''k1'') 5 =
      Some \<lparr>p_userId = u_id ann, p_email = Some (email ann)\<rparr>"
    by (simp add: test_lib_def ann_def)
  have run: "snd (login test_lib test_env 0 test_db
        \<lparr>lb_email = ''ann@x.org'', lb_password = ''pw1''\<rparr>) =
      test_db\<lparr>users := [ann\<lparr>refreshTokens := [''t1'', ''t2'', ''k2.r'']\<rparr>, bob]\<rparr>"
    by (simp add: login_def generateAccessToken_def generateRefreshToken_def test_db_def
        ann_def bob_def test_lib_def test_env_def Let_def)
  from login_issues_tokens [where E = test_env, OF user pw _ _ _ _ a r _ _ verify] run
  show ?thesis
    by (auto simp: test_env_def ann_def ann_payload_def)
qed

section \<open>Bookmarks\<close>



text \<open>
  C10: the owner of a created bookmark is the user of the access token, whatever the body
  says; a \<^verbatim>\<open>userId\<close> in the body is overwritten.
\<close>

theorem create_bookmark_owner_is_token_user:
  assumes gate: "authenticateUser L E now authorization = Next req_user"
  shows "\<exists>b. route_create_bookmark L E now authorization body d =
               (Response 201 (BookmarkDoc b),
                d\<lparr>bookmarks := bookmarks d @ [b], next_id := Suc (next_id d)\<rparr>) \<and>
             userId b = p_userId req_user \<and> b_id b = next_id d \<and>
             title b = bb_title body \<and> url b = bb_url body \<and>
             category b = bb_category body \<and> b_notes b = bb_notes body"
  using gate
  by (simp add: route_create_bookmark_def protected_def create_bookmark_def Let_def)

text \<open>The run: the body names user 2 as owner, the token is user 1's.\<close>

theorem create_bookmark_owner_is_token_user_witness:
  "route_create_bookmark test_lib test_env 0 ann_header (bm_body ''c'' (Some 2)) test_db =
     (Response 201 (BookmarkDoc (bm 5 ''c'' 1)),
      test_db\<lparr>bookmarks := [bm 3 ''a'' 1, bm 4 ''b'' 2, bm 5 ''c'' 1], next_id := 6\<rparr>)"
proof -
  have gate: "authenticateUser test_lib test_env 0 ann_header = Next ann_payload"
    by (simp add: authenticateUser_def header_token_def ann_header_def test_lib_def
        test_env_def ann_payload_def)
  have run: "fst (route_create_bookmark test_lib test_env 0 ann_header
        (bm_body ''c'' (Some 2)) test_db) = Response 201 (BookmarkDoc (bm 5 ''c'' 1))"
    using gate
    by (simp add: route_create_bookmark_def protected_def create_bookmark_def Let_def
        bm_body_def bm_def test_db_def ann_payload_def)
  from create_bookmark_owner_is_token_user [OF gate, of "bm_body ''c'' (Some 2)" test_db] run
  show ?thesis by (auto simp: test_db_def)
qed

text \<open>
  Listing sorts by \<^verbatim>\<open>createdAt\<close>, which no bookmark has: the sort leaves the owner's
  bookmarks in store order.
\<close>

lemma list_bookmarks_store_order:
  "list_bookmarks req_user d =
     (Response 200 (BookmarkList (filter (\<lambda>b. userId b = p_userId req_user) (bookmarks d))), d)"
  by (simp add: list_bookmarks_def sort_desc_const createdAt_def)

text \<open>
  C9 at two bookmarks created by one user at clock values 1 and 2, listed at 3: the list
  has the older one first, where the claim has the newer one first.
\<close>

theorem list_bookmarks_oldest_first:
  "bookmarks two_bookmarks_db = [bm 0 ''first'' 1, bm 1 ''second'' 1] \<and>
   route_list_bookmarks test_lib test_env 3 ann_header two_bookmarks_db =
     (Response 200 (BookmarkList [bm 0 ''first'' 1, bm 1 ''second'' 1]), two_bookmarks_db)"
  by (simp add: two_bookmarks_db_eq route_list_bookmarks_def protected_def
      ann_header_accepted list_bookmarks_def createdAt_def bm_def ann_payload_def)

end
